theory Spec2Isabelle
  imports Main "HOL-Library.Sublist" "HOL-Library.AList"
begin

section \<open>JavaScript strings\<close>

text \<open>
  Strings are lists of characters. \<open>s.startsWith(t)\<close> is \<^const>\<open>prefix\<close> \<open>t s\<close>,
  \<open>s.endsWith(t)\<close> is \<^const>\<open>suffix\<close> \<open>t s\<close>.
\<close>

text \<open>\<open>s.includes(sub)\<close>: \<open>sub\<close> occurs somewhere in \<open>s\<close>.\<close>

fun str_includes :: "string \<Rightarrow> string \<Rightarrow> bool" where
  "str_includes sub [] = (sub = [])"
| "str_includes sub (c # cs) = (prefix sub (c # cs) \<or> str_includes sub cs)"

text \<open>\<open>s.replace(/\\/g, "/")\<close>: every backslash becomes a slash.\<close>

definition backslashToSlash :: "string \<Rightarrow> string" where
  "backslashToSlash s = map (\<lambda>c. if c = CHR 0x5C then CHR ''/'' else c) s"

text \<open>
  \<open>s.trim()\<close> removes white space and line terminators at both ends; of the characters
  a \<^typ>\<open>char\<close> can hold these are tab, line feed, vertical tab, form feed, carriage return
  and space.
\<close>

definition isWhiteSpace :: "char \<Rightarrow> bool" where
  "isWhiteSpace c = (c \<in> set [CHR 0x09, CHR 0x0A, CHR 0x0B, CHR 0x0C, CHR 0x0D, CHR '' ''])"

definition trim :: "string \<Rightarrow> string" where
  "trim s = rev (dropWhile isWhiteSpace (rev (dropWhile isWhiteSpace s)))"

text \<open>\<open>s.split("/")\<close>: the pieces between slashes; the empty string gives one empty piece.\<close>

fun splitSlash :: "string \<Rightarrow> string list" where
  "splitSlash [] = [[]]"
| "splitSlash (c # cs) =
     (if c = CHR ''/'' then [] # splitSlash cs
      else (case splitSlash cs of [] \<Rightarrow> [[c]] | s # ss \<Rightarrow> (c # s) # ss))"

text \<open>\<open>xs.join("/")\<close>.\<close>

fun joinSlash :: "string list \<Rightarrow> string" where
  "joinSlash [] = []"
| "joinSlash [s] = s"
| "joinSlash (s # t # ss) = s @ ''/'' @ joinSlash (t # ss)"

section \<open>The path module (POSIX)\<close>

text \<open>
  The server joins and resolves paths with Node's \<open>path\<close> module. The model is the POSIX
  flavour of that module: the separator \<open>path.sep\<close> is the slash.
\<close>

definition sep :: string where
  "sep = ''/''"

text \<open>
  \<open>normalizeString\<close> walks the segments of a path: empty segments and \<open>.\<close> are dropped,
  \<open>..\<close> removes the segment before it, and where there is none (or it is itself \<open>..\<close>)
  it is kept only when the path may climb above its start. The accumulator holds the
  segments kept so far.
\<close>

fun normalizeSegments :: "bool \<Rightarrow> string list \<Rightarrow> string list \<Rightarrow> string list" where
  "normalizeSegments allowAboveRoot acc [] = acc"
| "normalizeSegments allowAboveRoot acc (s # ss) =
     (if s = [] \<or> s = ''.'' then normalizeSegments allowAboveRoot acc ss
      else if s = ''..'' then
        (if acc \<noteq> [] \<and> last acc \<noteq> ''..'' then normalizeSegments allowAboveRoot (butlast acc) ss
         else if allowAboveRoot then normalizeSegments allowAboveRoot (acc @ [''..'']) ss
         else normalizeSegments allowAboveRoot acc ss)
      else normalizeSegments allowAboveRoot (acc @ [s]) ss)"

definition normalizeString :: "string \<Rightarrow> bool \<Rightarrow> string" where
  "normalizeString p allowAboveRoot = joinSlash (normalizeSegments allowAboveRoot [] (splitSlash p))"

definition isAbsolute :: "string \<Rightarrow> bool" where
  "isAbsolute p = (case p of [] \<Rightarrow> False | c # _ \<Rightarrow> c = CHR ''/'')"

text \<open>\<open>path.normalize(p)\<close>.\<close>

definition path_normalize :: "string \<Rightarrow> string" where
  "path_normalize p =
     (if p = [] then ''.''
      else
        let trailingSeparator = (last p = CHR ''/'');
            q = normalizeString p (\<not> isAbsolute p)
        in if q = [] then (if isAbsolute p then ''/'' else if trailingSeparator then ''./'' else ''.'')
           else
             let q' = (if trailingSeparator then q @ ''/'' else q)
             in if isAbsolute p then ''/'' @ q' else q')"

text \<open>\<open>path.join(a, b)\<close>: the non-empty arguments, joined by a slash, then normalized.\<close>

definition path_join :: "string \<Rightarrow> string \<Rightarrow> string" where
  "path_join a b =
     (if a = [] \<and> b = [] then ''.''
      else if a = [] then path_normalize b
      else if b = [] then path_normalize a
      else path_normalize (a @ ''/'' @ b))"

text \<open>
  \<open>path.resolve(p)\<close> with the working directory \<open>cwd\<close> of the process: the argument and
  then the working directory are prepended until the path is absolute.
\<close>

definition path_resolve :: "string \<Rightarrow> string \<Rightarrow> string" where
  "path_resolve cwd p =
     (let r1 = (if p = [] then [] else p @ ''/'');
          r2 = (if isAbsolute p \<or> cwd = [] then r1 else cwd @ ''/'' @ r1);
          resolvedAbsolute = (isAbsolute p \<or> isAbsolute cwd);
          q = normalizeString r2 (\<not> resolvedAbsolute)
      in if resolvedAbsolute then ''/'' @ q else if q \<noteq> [] then q else ''.'')"

section \<open>The file system\<close>

text \<open>
  What the server reads from the operating system, at one moment. A call of Node's
  \<open>fs\<close> module that throws is \<open>None\<close>. \<open>readdirSync\<close> lists a directory with the type
  of each entry; since \<open>Dirent.isDirectory()\<close> is false for a symbolic link, the recursive
  walk of a directory never follows links, and what it can see below a directory is a
  finite tree: a directory entry carries its own listing (\<open>None\<close> when that directory is
  missing or unreadable). \<open>watchThrows\<close> tells whether creating a chokidar watcher for a
  path fails at this moment.
\<close>

datatype fsnode = FileNode | OtherNode | DirNode "(string \<times> fsnode) list option"

record filesystem =
  cwd :: string
  realpathSync :: "string \<Rightarrow> string option"
  existsSync :: "string \<Rightarrow> bool"
  statSize :: "string \<Rightarrow> nat option"
  readFileSync :: "string \<Rightarrow> string option"
  readdirSync :: "string \<Rightarrow> (string \<times> fsnode) list option"
  watchThrows :: "string \<Rightarrow> bool"

section \<open>Path boundary check\<close>

text \<open>
  \<open>isPathWithinBase(targetPath, baseDir)\<close>. Both paths are resolved with \<open>realpathSync\<close>;
  if either call throws, the \<open>catch\<close> branch compares the lexically resolved paths.
\<close>

definition isPathWithinBase_fallback :: "filesystem \<Rightarrow> string \<Rightarrow> string \<Rightarrow> bool" where
  "isPathWithinBase_fallback fs targetPath baseDir =
     (let normalizedBase = path_resolve (cwd fs) baseDir @ sep;
          normalizedPath = path_resolve (cwd fs) targetPath
      in prefix normalizedBase normalizedPath)"

definition isPathWithinBase :: "filesystem \<Rightarrow> string \<Rightarrow> string \<Rightarrow> bool" where
  "isPathWithinBase fs targetPath baseDir =
     (case realpathSync fs baseDir of
        None \<Rightarrow> isPathWithinBase_fallback fs targetPath baseDir
      | Some realBase \<Rightarrow>
          (case realpathSync fs targetPath of
             None \<Rightarrow> isPathWithinBase_fallback fs targetPath baseDir
           | Some realTarget \<Rightarrow>
               (let normalizedBase = realBase @ sep
                in realTarget = realBase \<or> prefix normalizedBase realTarget)))"

section \<open>Skill metadata\<close>

text \<open>The interfaces \<open>SkillDocument\<close> and \<open>SkillMetadata\<close> of \<open>types.ts\<close>.\<close>

record SkillDocument =
  docPath :: string
  mimeType :: string
  docSize :: nat

record SkillMetadata =
  name :: string
  description :: string
  path :: string
  skillDir :: string
  metadata :: "(string \<times> string) list option"
  documents :: "SkillDocument list"

text \<open>
  A JavaScript \<open>Map\<close> keeps its entries in insertion order: an association list.
  \<open>m.get(k)\<close> is \<^const>\<open>map_of\<close>, \<open>m.set(k, v)\<close> is \<^const>\<open>AList.update\<close> (in place when
  the key is there, at the end otherwise), \<open>m.delete(k)\<close> is \<^const>\<open>AList.delete\<close>.
\<close>

type_synonym catalog = "(string \<times> SkillMetadata) list"

definition has :: "('k \<times> 'v) list \<Rightarrow> 'k \<Rightarrow> bool" where
  "has m k = (map_of m k \<noteq> None)"

text \<open>Errors thrown: an \<open>Error\<close> with its message, or a failing system call.\<close>

datatype error = Error string | FileTooLarge nat | SystemError string string

definition MAX_FILE_SIZE :: nat where
  "MAX_FILE_SIZE = 1 * 1024 * 1024"

section \<open>MIME types\<close>

definition MIME_TYPES :: "(string \<times> string) list" where
  "MIME_TYPES =
     [(''.md'', ''text/markdown''), (''.txt'', ''text/plain''), (''.py'', ''text/x-python''),
      (''.js'', ''text/javascript''), (''.ts'', ''text/typescript''), (''.sh'', ''text/x-shellscript''),
      (''.bash'', ''text/x-shellscript''), (''.json'', ''application/json''), (''.yaml'', ''text/yaml''),
      (''.yml'', ''text/yaml''), (''.xml'', ''application/xml''), (''.html'', ''text/html''),
      (''.css'', ''text/css''), (''.sql'', ''text/x-sql''), (''.png'', ''image/png''),
      (''.jpg'', ''image/jpeg''), (''.jpeg'', ''image/jpeg''), (''.gif'', ''image/gif''),
      (''.svg'', ''image/svg+xml''), (''.pdf'', ''application/pdf'')]"

definition toLowerCase :: "string \<Rightarrow> string" where
  "toLowerCase s =
     map (\<lambda>c. let n = (of_char c :: nat) in if 65 \<le> n \<and> n \<le> 90 then char_of (n + 32) else c) s"

text \<open>
  \<open>path.extname(p)\<close>: in the last segment of the path (trailing slashes aside), the part
  from the last dot on; empty when there is no dot, when the only dot starts the segment,
  and for the segment \<open>..\<close>.
\<close>

definition extname :: "string \<Rightarrow> string" where
  "extname p =
     (let base = rev (takeWhile (\<lambda>c. c \<noteq> CHR ''/'') (dropWhile (\<lambda>c. c = CHR ''/'') (rev p)));
          ext = rev (takeWhile (\<lambda>c. c \<noteq> CHR ''.'') (rev base));
          pre = take (length base - length ext - 1) base
      in if CHR ''.'' \<notin> set base then []
         else if pre = [] then []
         else if hd pre = CHR ''.'' \<and> pre = ''.'' \<and> ext = [] then []
         else CHR ''.'' # ext)"

definition getMimeType :: "string \<Rightarrow> string" where
  "getMimeType filepath =
     (case map_of MIME_TYPES (toLowerCase (extname filepath)) of
        None \<Rightarrow> ''application/octet-stream''
      | Some t \<Rightarrow> t)"

section \<open>Scanning for documents\<close>

text \<open>
  \<open>path.relative(from, to)\<close>: both paths are resolved, their common leading segments are
  dropped, and each segment left of \<open>from\<close> becomes \<open>..\<close>.
\<close>

fun dropCommon :: "string list \<Rightarrow> string list \<Rightarrow> string list \<times> string list" where
  "dropCommon (x # xs) (y # ys) = (if x = y then dropCommon xs ys else (x # xs, y # ys))"
| "dropCommon xs ys = (xs, ys)"

definition path_relative :: "string \<Rightarrow> string \<Rightarrow> string \<Rightarrow> string" where
  "path_relative wd from to =
     (let f = filter (\<lambda>s. s \<noteq> []) (splitSlash (path_resolve wd from));
          t = filter (\<lambda>s. s \<noteq> []) (splitSlash (path_resolve wd to))
      in case dropCommon f t of (f', t') \<Rightarrow> joinSlash (replicate (length f') ''..'' @ t'))"

definition isDirectory :: "fsnode \<Rightarrow> bool" where
  "isDirectory node = (case node of DirNode _ \<Rightarrow> True | _ \<Rightarrow> False)"

text \<open>
  \<open>scanDir(dirPath, relativeTo, baseDir)\<close>, on the node of the directory \<open>dirPath\<close>. An
  entry outside the base directory, a file over the size limit and a file that cannot be
  examined are left out.
\<close>

fun scanDir :: "filesystem \<Rightarrow> string \<Rightarrow> string \<Rightarrow> string \<Rightarrow> fsnode \<Rightarrow> SkillDocument list" where
  "scanDir fs dirPath relativeTo baseDir (DirNode (Some entries)) =
     (if \<not> existsSync fs dirPath then []
      else concat (map (\<lambda>(entryName, node).
             let fullPath = path_join dirPath entryName
             in if \<not> isPathWithinBase fs fullPath baseDir then []
                else (case node of
                        FileNode \<Rightarrow>
                          (case statSize fs fullPath of
                             None \<Rightarrow> []
                           | Some sz \<Rightarrow>
                               if sz > MAX_FILE_SIZE then []
                               else [\<lparr>docPath = backslashToSlash (path_relative (cwd fs) relativeTo fullPath),
                                      mimeType = getMimeType entryName,
                                      docSize = sz\<rparr>])
                      | DirNode l \<Rightarrow> scanDir fs fullPath relativeTo baseDir node
                      | OtherNode \<Rightarrow> [])) entries))"
| "scanDir fs dirPath relativeTo baseDir node = []"

text \<open>
  \<open>scanDocuments(skillDir, baseDir)\<close>, on the listing of the skill directory: the files
  below its subdirectories.
\<close>

definition scanDocuments ::
  "filesystem \<Rightarrow> string \<Rightarrow> string \<Rightarrow> (string \<times> fsnode) list option \<Rightarrow> SkillDocument list" where
  "scanDocuments fs skillDirPath baseDir listing =
     (case listing of
        None \<Rightarrow> []
      | Some entries \<Rightarrow>
          concat (map (\<lambda>(entryName, node).
            if \<not> isDirectory node then []
            else scanDir fs (path_join skillDirPath entryName) skillDirPath baseDir node) entries))"

section \<open>Front matter\<close>

text \<open>
  What the YAML parser returns: a string, a mapping, a sequence, \<open>null\<close>, or another
  scalar (a number or a boolean). The parser itself is a parameter \<open>parseYaml\<close>; \<open>None\<close>
  is a parse error.
\<close>

datatype yaml = YString string | YMapping "(string \<times> yaml) list" | YSequence "yaml list" | YNull | YScalar

text \<open>\<open>content.split("---")\<close>.\<close>

fun splitDashes :: "string \<Rightarrow> string list" where
  "splitDashes [] = [[]]"
| "splitDashes (c # cs) =
     (if prefix ''---'' (c # cs) then [] # splitDashes (drop 2 cs)
      else (case splitDashes cs of [] \<Rightarrow> [[c]] | s # ss \<Rightarrow> (c # s) # ss))"

fun joinDashes :: "string list \<Rightarrow> string" where
  "joinDashes [] = []"
| "joinDashes [s] = s"
| "joinDashes (s # t # ss) = s @ ''---'' @ joinDashes (t # ss)"

definition isObject :: "yaml \<Rightarrow> bool" where
  "isObject y = (case y of YMapping _ \<Rightarrow> True | YSequence _ \<Rightarrow> True | _ \<Rightarrow> False)"

definition parseFrontmatter :: "(string \<Rightarrow> yaml option) \<Rightarrow> string \<Rightarrow> error + (yaml \<times> string)" where
  "parseFrontmatter parseYaml content =
     (if \<not> prefix ''---'' content then Inl (Error ''SKILL.md must start with YAML frontmatter (---)'')
      else
        let parts = splitDashes content
        in if length parts < 3 then Inl (Error ''SKILL.md frontmatter not properly closed with ---'')
           else (case parseYaml (parts ! 1) of
                   None \<Rightarrow> Inl (Error ''YAML parse error'')
                 | Some frontmatter \<Rightarrow>
                     if \<not> isObject frontmatter then Inl (Error ''SKILL.md frontmatter must be a YAML mapping'')
                     else Inr (frontmatter, trim (joinDashes (drop 2 parts)))))"

text \<open>
  Reading a property of the parsed front matter: the value under the key in a mapping;
  a sequence has none of the properties read here.
\<close>

definition property :: "yaml \<Rightarrow> string \<Rightarrow> yaml option" where
  "property y k = (case y of YMapping m \<Rightarrow> map_of m k | _ \<Rightarrow> None)"

definition asString :: "yaml option \<Rightarrow> string option" where
  "asString v = (case v of Some (YString s) \<Rightarrow> Some s | _ \<Rightarrow> None)"

fun showNat :: "nat \<Rightarrow> string" where
  "showNat n = (if n < 10 then [char_of (48 + n)] else showNat (n div 10) @ [char_of (48 + n mod 10)])"

text \<open>\<open>Object.entries\<close>: the entries of a mapping; the elements of a sequence under their indices.\<close>

definition objectEntries :: "yaml \<Rightarrow> (string \<times> yaml) list" where
  "objectEntries y =
     (case y of
        YMapping m \<Rightarrow> m
      | YSequence vs \<Rightarrow> zip (map showNat [0..<length vs]) vs
      | _ \<Rightarrow> [])"

text \<open>The optional \<open>metadata\<close> field: the string-valued entries, in the order they are assigned.\<close>

definition extractMetadata :: "yaml \<Rightarrow> (string \<times> string) list" where
  "extractMetadata frontmatter =
     (case property frontmatter ''metadata'' of
        None \<Rightarrow> []
      | Some md \<Rightarrow>
          if isObject md then
            fold (\<lambda>(k, v) acc. case v of YString t \<Rightarrow> AList.update k t acc | _ \<Rightarrow> acc) (objectEntries md) []
          else [])"

section \<open>Discovery\<close>

text \<open>What the scan writes to the error console.\<close>

datatype diagnostic =
    DirectoryNotFound string
  | SkipTooLarge string nat
  | SkipEscapes string
  | InvalidName string
  | InvalidDescription string
  | DuplicateName string string
  | ParseFailed string error

text \<open>The definition file of a skill directory: \<open>SKILL.md\<close> is preferred, \<open>skill.md\<close> accepted.\<close>

definition findSkillMd :: "filesystem \<Rightarrow> string \<Rightarrow> string option" where
  "findSkillMd fs skillDirPath =
     (if existsSync fs (path_join skillDirPath ''SKILL.md'') then Some (path_join skillDirPath ''SKILL.md'')
      else if existsSync fs (path_join skillDirPath ''skill.md'') then Some (path_join skillDirPath ''skill.md'')
      else None)"

text \<open>
  The body of the loop of \<open>discoverSkills\<close>, for one entry of the skills directory. The
  result \<open>Inl\<close> is an exception that leaves \<open>discoverSkills\<close> (\<open>statSync\<close> is outside the
  \<open>try\<close> block); what the \<open>try\<close> block catches becomes a diagnostic.
\<close>

fun discoverEntry ::
  "(string \<Rightarrow> yaml option) \<Rightarrow> filesystem \<Rightarrow> string \<Rightarrow> string \<times> fsnode \<Rightarrow>
   catalog \<times> diagnostic list \<Rightarrow> error + (catalog \<times> diagnostic list)" where
  "discoverEntry parseYaml fs resolvedDir (entryName, node) (skillMap, log) =
     (if \<not> isDirectory node then Inr (skillMap, log)
      else
        let skillDirPath = path_join resolvedDir entryName
        in (case findSkillMd fs skillDirPath of
              None \<Rightarrow> Inr (skillMap, log)
            | Some skillMdPath \<Rightarrow>
               (case statSize fs skillMdPath of
                  None \<Rightarrow> Inl (SystemError ''stat'' skillMdPath)
                | Some sz \<Rightarrow>
                   (if sz > MAX_FILE_SIZE then Inr (skillMap, log @ [SkipTooLarge skillMdPath sz])
                    else if \<not> isPathWithinBase fs skillMdPath resolvedDir
                      then Inr (skillMap, log @ [SkipEscapes skillMdPath])
                    else
                      (case readFileSync fs skillMdPath of
                         None \<Rightarrow> Inr (skillMap, log @ [ParseFailed skillDirPath (SystemError ''open'' skillMdPath)])
                       | Some content \<Rightarrow>
                          (case parseFrontmatter parseYaml content of
                             Inl e \<Rightarrow> Inr (skillMap, log @ [ParseFailed skillDirPath e])
                           | Inr (frontmatter, body) \<Rightarrow>
                              (case asString (property frontmatter ''name'') of
                                 None \<Rightarrow> Inr (skillMap, log @ [InvalidName skillDirPath])
                               | Some nm \<Rightarrow>
                                  (if trim nm = [] then Inr (skillMap, log @ [InvalidName skillDirPath])
                                   else
                                     (case asString (property frontmatter ''description'') of
                                        None \<Rightarrow> Inr (skillMap, log @ [InvalidDescription skillDirPath])
                                      | Some desc \<Rightarrow>
                                         (if trim desc = [] then Inr (skillMap, log @ [InvalidDescription skillDirPath])
                                          else
                                            let md = extractMetadata frontmatter;
                                                trimmedName = trim nm
                                            in (if has skillMap trimmedName
                                                then Inr (skillMap, log @ [DuplicateName trimmedName skillMdPath])
                                                else
                                                  let docs = scanDocuments fs skillDirPath resolvedDir
                                                               (case node of DirNode l \<Rightarrow> l | _ \<Rightarrow> None)
                                                  in Inr (AList.update trimmedName
                                                           \<lparr>name = trimmedName,
                                                            description = trim desc,
                                                            path = skillMdPath,
                                                            skillDir = skillDirPath,
                                                            metadata = (if md \<noteq> [] then Some md else None),
                                                            documents = docs\<rparr> skillMap, log))))))))))))"

text \<open>The loop over the entries; an exception ends it.\<close>

fun discoverEntries ::
  "(string \<Rightarrow> yaml option) \<Rightarrow> filesystem \<Rightarrow> string \<Rightarrow> (string \<times> fsnode) list \<Rightarrow>
   catalog \<times> diagnostic list \<Rightarrow> error + (catalog \<times> diagnostic list)" where
  "discoverEntries parseYaml fs resolvedDir [] st = Inr st"
| "discoverEntries parseYaml fs resolvedDir (entry # entries) st =
     (case discoverEntry parseYaml fs resolvedDir entry st of
        Inl e \<Rightarrow> Inl e
      | Inr st' \<Rightarrow> discoverEntries parseYaml fs resolvedDir entries st')"

text \<open>\<open>discoverSkills(skillsDir)\<close>: the catalog and the diagnostics written, or the exception thrown.\<close>

definition discoverSkills ::
  "(string \<Rightarrow> yaml option) \<Rightarrow> filesystem \<Rightarrow> string \<Rightarrow> error + (catalog \<times> diagnostic list)" where
  "discoverSkills parseYaml fs skillsDir =
     (let resolvedDir = path_resolve (cwd fs) skillsDir
      in if \<not> existsSync fs resolvedDir then Inr ([], [DirectoryNotFound resolvedDir])
         else (case readdirSync fs resolvedDir of
                 None \<Rightarrow> Inl (SystemError ''scandir'' resolvedDir)
               | Some entries \<Rightarrow> discoverEntries parseYaml fs resolvedDir entries ([], [])))"

section \<open>Loading a document\<close>

text \<open>The calls of the \<open>fs\<close> module a function makes, in order.\<close>

datatype fs_access = Realpath string | Stat string | ReadFile string

definition isPathWithinBase_accesses :: "filesystem \<Rightarrow> string \<Rightarrow> string \<Rightarrow> fs_access list" where
  "isPathWithinBase_accesses fs targetPath baseDir =
     (case realpathSync fs baseDir of
        None \<Rightarrow> [Realpath baseDir]
      | Some _ \<Rightarrow> [Realpath baseDir, Realpath targetPath])"

text \<open>
  \<open>loadDocument(skill, documentPath, skillsDir)\<close>: the content read or the exception
  thrown, together with the calls of the \<open>fs\<close> module made on the way.
\<close>

definition loadDocument ::
  "filesystem \<Rightarrow> SkillMetadata \<Rightarrow> string \<Rightarrow> string \<Rightarrow> (error + string) \<times> fs_access list" where
  "loadDocument fs skill documentPath skillsDir =
     (if str_includes ''..'' documentPath then (Inl (Error ''Path traversal not allowed''), [])
      else
        let fullPath = path_join (skillDir skill) documentPath;
            acc = isPathWithinBase_accesses fs fullPath skillsDir
        in if \<not> isPathWithinBase fs fullPath skillsDir
           then (Inl (Error ''Path escapes the skills directory''), acc)
           else (case statSize fs fullPath of
                   None \<Rightarrow> (Inl (SystemError ''stat'' fullPath), acc @ [Stat fullPath])
                 | Some sz \<Rightarrow>
                     if sz > MAX_FILE_SIZE then (Inl (FileTooLarge sz), acc @ [Stat fullPath])
                     else (case readFileSync fs fullPath of
                             None \<Rightarrow> (Inl (SystemError ''open'' fullPath), acc @ [Stat fullPath, ReadFile fullPath])
                           | Some content \<Rightarrow> (Inr content, acc @ [Stat fullPath, ReadFile fullPath]))))"

section \<open>Resolving a URI to the paths to watch\<close>

text \<open>
  The regular expression \<open>^skill:\/\/([^/]+)\/(.+)$\<close>. The first group cannot hold a slash
  and the slash after it must be there, so it is what stands between \<open>skill://\<close> and the
  next slash, and must not be empty. The second group is all the rest; the dot matches no
  line terminator, so the rest must be free of them, and not empty.
\<close>

definition isLineTerminator :: "char \<Rightarrow> bool" where
  "isLineTerminator c = (c = CHR 0x0A \<or> c = CHR 0x0D)"

definition matchSkillUri :: "string \<Rightarrow> (string \<times> string) option" where
  "matchSkillUri uri =
     (if \<not> prefix ''skill://'' uri then None
      else
        let r = drop 8 uri;
            skillName = takeWhile (\<lambda>c. c \<noteq> CHR ''/'') r
        in if skillName = [] then None
           else (case dropWhile (\<lambda>c. c \<noteq> CHR ''/'') r of
                   [] \<Rightarrow> None
                 | _ # rest \<Rightarrow> if rest = [] \<or> list_ex isLineTerminator rest then None
                               else Some (skillName, rest)))"

definition resolveUriToFilePaths :: "filesystem \<Rightarrow> string \<Rightarrow> catalog \<Rightarrow> string \<Rightarrow> string list" where
  "resolveUriToFilePaths fs uri skillMap skillsDir =
     (if uri = ''skill://prompt-xml'' then map (\<lambda>(k, s). path s) skillMap
      else (case matchSkillUri uri of
              None \<Rightarrow> []
            | Some (skillName, rest) \<Rightarrow>
               (case map_of skillMap skillName of
                  None \<Rightarrow> []
                | Some skill \<Rightarrow>
                   (if rest = ''SKILL.md'' then [path skill]
                    else if rest = ''_manifest'' then [skillDir skill]
                    else
                      let filePath = path_join (skillDir skill) rest
                      in if \<not> isPathWithinBase fs filePath skillsDir then [] else [filePath]))))"

section \<open>The server state\<close>

text \<open>
  A JavaScript \<open>Set\<close> keeps insertion order too: a list without repetition.
\<close>

definition set_add :: "'a \<Rightarrow> 'a list \<Rightarrow> 'a list" where
  "set_add x xs = (if x \<in> set xs then xs else xs @ [x])"

definition set_from :: "'a list \<Rightarrow> 'a list" where
  "set_from xs = fold set_add xs []"

text \<open>
  The live catalog \<open>skillMap\<close> and the resource handles of \<open>index.ts\<close>, the five tables of
  the subscription manager, and what lives outside the program: the timeouts the event
  loop still holds (each with the URI its callback closes over), the chokidar watchers
  still open (each with its path), and the calls of the notify callback made so far.
  A timeout and a watcher are known by a number, handed out in order.
\<close>

record server =
  skillMap :: catalog
  resourceHandles :: "string list"
  subscribedUris :: "string list"
  uriToFilePaths :: "(string \<times> string list) list"
  filePathToUris :: "(string \<times> string list) list"
  watchers :: "(string \<times> nat) list"
  debounceTimers :: "(string \<times> nat) list"
  pendingTimeouts :: "(nat \<times> string) list"
  nextTimeout :: nat
  openWatchers :: "(nat \<times> string) list"
  nextWatcher :: nat
  notified :: "string list"

definition startup :: "catalog \<Rightarrow> server" where
  "startup m =
     \<lparr>skillMap = m, resourceHandles = map fst m, subscribedUris = [], uriToFilePaths = [],
      filePathToUris = [], watchers = [], debounceTimers = [], pendingTimeouts = [],
      nextTimeout = 0, openWatchers = [], nextWatcher = 0, notified = []\<rparr>"

section \<open>The subscription manager\<close>

definition clearTimeout :: "nat \<Rightarrow> server \<Rightarrow> server" where
  "clearTimeout t s = s\<lparr>pendingTimeouts := filter (\<lambda>(n, u). n \<noteq> t) (pendingTimeouts s)\<rparr>"

text \<open>One round of the inner loop of \<open>onFileChange\<close>: restart the debounce timer of a URI.\<close>

definition debounce :: "string \<Rightarrow> server \<Rightarrow> server" where
  "debounce uri s =
     (let s1 = (case map_of (debounceTimers s) uri of None \<Rightarrow> s | Some existing \<Rightarrow> clearTimeout existing s);
          t = nextTimeout s1
      in s1\<lparr>debounceTimers := AList.update uri t (debounceTimers s1),
            pendingTimeouts := pendingTimeouts s1 @ [(t, uri)],
            nextTimeout := Suc t\<rparr>)"

definition onFileChange :: "string \<Rightarrow> server \<Rightarrow> server" where
  "onFileChange changedPath s =
     (let normalized = backslashToSlash changedPath
      in fold (\<lambda>(watchedPath, uris) st.
                 let watchedNorm = backslashToSlash watchedPath;
                     isMatch = (normalized = watchedNorm \<or> prefix (watchedNorm @ ''/'') normalized)
                 in if \<not> isMatch then st else fold debounce uris st)
              (filePathToUris s) s)"

text \<open>
  The callback of a timeout: the event loop runs it only while the timeout is pending.
  It forgets the timer and notifies if the URI is still subscribed.
\<close>

definition timerFire :: "nat \<Rightarrow> string \<Rightarrow> server \<Rightarrow> server" where
  "timerFire t uri s =
     (if (t, uri) \<notin> set (pendingTimeouts s) then s
      else
        let s1 = (clearTimeout t s)\<lparr>debounceTimers := AList.delete uri (debounceTimers s)\<rparr>
        in if uri \<in> set (subscribedUris s1) then s1\<lparr>notified := notified s1 @ [uri]\<rparr> else s1)"

text \<open>\<open>ensureWatcher\<close>: \<open>Some\<close> error when creating the watcher throws.\<close>

definition ensureWatcher :: "filesystem \<Rightarrow> string \<Rightarrow> server \<Rightarrow> error option \<times> server" where
  "ensureWatcher fs filePath s =
     (if has (watchers s) filePath then (None, s)
      else if watchThrows fs filePath then (Some (SystemError ''watch'' filePath), s)
      else (None, s\<lparr>watchers := AList.update filePath (nextWatcher s) (watchers s),
                     openWatchers := openWatchers s @ [(nextWatcher s, filePath)],
                     nextWatcher := Suc (nextWatcher s)\<rparr>))"

definition removeWatcher :: "string \<Rightarrow> server \<Rightarrow> server" where
  "removeWatcher filePath s =
     (case map_of (watchers s) filePath of
        None \<Rightarrow> s
      | Some w \<Rightarrow> s\<lparr>openWatchers := filter (\<lambda>(h, p). h \<noteq> w) (openWatchers s),
                     watchers := AList.delete filePath (watchers s)\<rparr>)"

text \<open>The loop of \<open>subscribe\<close> over the resolved paths; an exception ends it.\<close>

fun subscribePaths :: "filesystem \<Rightarrow> string \<Rightarrow> string list \<Rightarrow> server \<Rightarrow> error option \<times> server" where
  "subscribePaths fs uri [] s = (None, s)"
| "subscribePaths fs uri (p # ps) s =
     (let uris = (case map_of (filePathToUris s) p of None \<Rightarrow> [] | Some us \<Rightarrow> us);
          s1 = s\<lparr>filePathToUris := AList.update p (set_add uri uris) (filePathToUris s)\<rparr>
      in (case ensureWatcher fs p s1 of
            (Some e, s2) \<Rightarrow> (Some e, s2)
          | (None, s2) \<Rightarrow> subscribePaths fs uri ps s2))"

definition subscribe :: "filesystem \<Rightarrow> string \<Rightarrow> string \<Rightarrow> server \<Rightarrow> error option \<times> server" where
  "subscribe fs skillsDir uri s =
     (if uri \<in> set (subscribedUris s) then (None, s)
      else
        let s1 = s\<lparr>subscribedUris := set_add uri (subscribedUris s)\<rparr>;
            paths = resolveUriToFilePaths fs uri (skillMap s1) skillsDir
        in if paths = [] then (None, s1)
           else subscribePaths fs uri paths
                  (s1\<lparr>uriToFilePaths := AList.update uri (set_from paths) (uriToFilePaths s1)\<rparr>))"

text \<open>The loop of \<open>unsubscribe\<close> over the paths of the URI.\<close>

fun unsubscribePaths :: "string \<Rightarrow> string list \<Rightarrow> server \<Rightarrow> server" where
  "unsubscribePaths uri [] s = s"
| "unsubscribePaths uri (p # ps) s =
     (case map_of (filePathToUris s) p of
        None \<Rightarrow> unsubscribePaths uri ps s
      | Some uris \<Rightarrow>
          (let uris' = removeAll uri uris
           in if uris' = []
              then unsubscribePaths uri ps
                     (removeWatcher p (s\<lparr>filePathToUris := AList.delete p (filePathToUris s)\<rparr>))
              else unsubscribePaths uri ps
                     (s\<lparr>filePathToUris := AList.update p uris' (filePathToUris s)\<rparr>)))"

definition unsubscribe :: "string \<Rightarrow> server \<Rightarrow> server" where
  "unsubscribe uri s =
     (if uri \<notin> set (subscribedUris s) then s
      else
        let s1 = s\<lparr>subscribedUris := removeAll uri (subscribedUris s)\<rparr>;
            s2 = (case map_of (debounceTimers s1) uri of
                    None \<Rightarrow> s1
                  | Some timer \<Rightarrow> (clearTimeout timer s1)\<lparr>debounceTimers := AList.delete uri (debounceTimers s1)\<rparr>)
        in (case map_of (uriToFilePaths s2) uri of
              None \<Rightarrow> s2
            | Some paths \<Rightarrow>
                (let s3 = unsubscribePaths uri paths s2
                 in s3\<lparr>uriToFilePaths := AList.delete uri (uriToFilePaths s3)\<rparr>)))"

definition unsubscribeByPrefix :: "string \<Rightarrow> server \<Rightarrow> server" where
  "unsubscribeByPrefix pfx s = fold unsubscribe (filter (prefix pfx) (subscribedUris s)) s"

definition close :: "server \<Rightarrow> server" where
  "close s =
     s\<lparr>pendingTimeouts := filter (\<lambda>(n, u). n \<notin> set (map snd (debounceTimers s))) (pendingTimeouts s),
       debounceTimers := [],
       openWatchers := filter (\<lambda>(h, p). h \<notin> set (map snd (watchers s))) (openWatchers s),
       watchers := [],
       subscribedUris := [],
       uriToFilePaths := [],
       filePathToUris := []\<rparr>"

section \<open>Reconciling the catalog\<close>

text \<open>
  The callback of the directory watcher in \<open>index.ts\<close>, given the fresh scan: skills that
  are gone are removed, with their resources and subscriptions; skills that are new are
  added.
\<close>

definition removeSkills :: "catalog \<Rightarrow> server \<Rightarrow> server" where
  "removeSkills newSkillMap s =
     fold (\<lambda>nm st.
             if \<not> has newSkillMap nm then
               (let st1 = st\<lparr>resourceHandles := removeAll nm (resourceHandles st)\<rparr>;
                    st2 = unsubscribeByPrefix (''skill://'' @ nm @ ''/'') st1
                in st2\<lparr>skillMap := AList.delete nm (skillMap st2)\<rparr>)
             else st)
          (map fst (skillMap s)) s"

definition addSkills :: "catalog \<Rightarrow> server \<Rightarrow> server" where
  "addSkills newSkillMap s =
     fold (\<lambda>(nm, md) st.
             if \<not> has (skillMap st) nm then
               st\<lparr>skillMap := AList.update nm md (skillMap st),
                  resourceHandles := set_add nm (resourceHandles st)\<rparr>
             else st)
          newSkillMap s"

definition reconcile :: "catalog \<Rightarrow> server \<Rightarrow> server" where
  "reconcile newSkillMap s = addSkills newSkillMap (removeSkills newSkillMap s)"

definition onDirectoryChange ::
  "(string \<Rightarrow> yaml option) \<Rightarrow> filesystem \<Rightarrow> string \<Rightarrow> server \<Rightarrow> error option \<times> server" where
  "onDirectoryChange parseYaml fs skillsDir s =
     (case discoverSkills parseYaml fs skillsDir of
        Inl e \<Rightarrow> (Some e, s)
      | Inr (newSkillMap, log) \<Rightarrow> (None, reconcile newSkillMap s))"

section \<open>Runs of the server\<close>

text \<open>
  What can happen to the running server: a call of one of the four operations of the
  subscription manager, a file event from a chokidar watcher, the event loop running the
  callback of timeout \<open>t\<close> (which closes over \<open>uri\<close>), and the directory watcher asking
  for a new scan. Each event comes with the state of the file system at its moment.
\<close>

datatype event =
    Subscribe string
  | Unsubscribe string
  | UnsubscribeByPrefix string
  | Close
  | FileChange string
  | TimerFire nat string
  | DirectoryChange

definition step ::
  "(string \<Rightarrow> yaml option) \<Rightarrow> string \<Rightarrow> filesystem \<times> event \<Rightarrow> server \<Rightarrow> error option \<times> server" where
  "step parseYaml skillsDir fe s =
     (case fe of (fs, ev) \<Rightarrow>
        (case ev of
           Subscribe uri \<Rightarrow> subscribe fs skillsDir uri s
         | Unsubscribe uri \<Rightarrow> (None, unsubscribe uri s)
         | UnsubscribeByPrefix pfx \<Rightarrow> (None, unsubscribeByPrefix pfx s)
         | Close \<Rightarrow> (None, close s)
         | FileChange p \<Rightarrow> (None, onFileChange p s)
         | TimerFire t uri \<Rightarrow> (None, timerFire t uri s)
         | DirectoryChange \<Rightarrow> onDirectoryChange parseYaml fs skillsDir s))"

text \<open>A run: the state after the events, and the exceptions thrown on the way.\<close>

fun run ::
  "(string \<Rightarrow> yaml option) \<Rightarrow> string \<Rightarrow> (filesystem \<times> event) list \<Rightarrow> server \<Rightarrow> error list \<times> server" where
  "run parseYaml skillsDir [] s = ([], s)"
| "run parseYaml skillsDir (fe # fes) s =
     (case step parseYaml skillsDir fe s of
        (r, s1) \<Rightarrow>
          (case run parseYaml skillsDir fes s1 of
             (errs, s2) \<Rightarrow> ((case r of None \<Rightarrow> [] | Some e \<Rightarrow> [e]) @ errs, s2)))"

section \<open>Example inputs\<close>

text \<open>A machine on which nothing exists: every call of the \<open>fs\<close> module throws.\<close>

definition nothingThere :: filesystem where
  "nothingThere =
     \<lparr>cwd = ''/'', realpathSync = (\<lambda>p. None), existsSync = (\<lambda>p. False), statSize = (\<lambda>p. None),
      readFileSync = (\<lambda>p. None), readdirSync = (\<lambda>p. None), watchThrows = (\<lambda>p. False)\<rparr>"

text \<open>
  A skills directory \<open>/skills\<close> with two skills that both declare the name \<open>alpha\<close>
  (the second with blanks around it), a skill \<open>gamma\<close> whose definition file has 2 MB,
  a directory \<open>delta\<close> without definition file, and a plain file. No symbolic links:
  \<open>realpathSync\<close> returns an existing path as it is.
\<close>

definition skillsFiles :: "(string \<times> nat \<times> string) list" where
  "skillsFiles =
     [(''/skills/alpha/SKILL.md'', 40, ''---A---# Alpha''),
      (''/skills/alpha/refs/r.md'', 50, ''reference''),
      (''/skills/alpha2/SKILL.md'', 44, ''---B---# Alpha again''),
      (''/skills/gamma/SKILL.md'', 2097152, ''---C---# Gamma''),
      (''/skills/notes.txt'', 5, ''notes'')]"

definition skillsDirs :: "string list" where
  "skillsDirs = [''/'', ''/skills'', ''/skills/alpha'', ''/skills/alpha/refs'', ''/skills/alpha2'',
                 ''/skills/gamma'', ''/skills/delta'']"

definition skillsListing :: "(string \<times> fsnode) list" where
  "skillsListing =
     [(''alpha'', DirNode (Some [(''SKILL.md'', FileNode), (''refs'', DirNode (Some [(''r.md'', FileNode)]))])),
      (''alpha2'', DirNode (Some [(''SKILL.md'', FileNode)])),
      (''delta'', DirNode (Some [])),
      (''gamma'', DirNode (Some [(''SKILL.md'', FileNode)])),
      (''notes.txt'', FileNode)]"

definition skillsDisk :: filesystem where
  "skillsDisk =
     \<lparr>cwd = ''/'',
      realpathSync = (\<lambda>p. if p \<in> set (map fst skillsFiles @ skillsDirs) then Some p else None),
      existsSync = (\<lambda>p. p \<in> set (map fst skillsFiles @ skillsDirs)),
      statSize = (\<lambda>p. if p \<in> set skillsDirs then Some 4096 else map_option fst (map_of skillsFiles p)),
      readFileSync = (\<lambda>p. map_option snd (map_of skillsFiles p)),
      readdirSync = (\<lambda>p. if p = ''/skills'' then Some skillsListing else None),
      watchThrows = (\<lambda>p. False)\<rparr>"

text \<open>A YAML parser that knows the three front matters of that directory.\<close>

definition skillsYaml :: "string \<Rightarrow> yaml option" where
  "skillsYaml t =
     map_of [(''A'', YMapping [(''name'', YString ''alpha''), (''description'', YString ''d'')]),
             (''B'', YMapping [(''name'', YString '' alpha ''), (''description'', YString ''other'')]),
             (''C'', YMapping [(''name'', YString ''gamma''), (''description'', YString ''big'')])] t"

definition alphaSkill :: SkillMetadata where
  "alphaSkill =
     \<lparr>name = ''alpha'', description = ''d'', path = ''/skills/alpha/SKILL.md'',
      skillDir = ''/skills/alpha'', metadata = None, documents = []\<rparr>"

section \<open>Properties of the path boundary check\<close>

lemma isPathWithinBase_resolved:
  assumes "realpathSync fs baseDir = Some realBase" and "realpathSync fs targetPath = Some realTarget"
  shows "isPathWithinBase fs targetPath baseDir \<longleftrightarrow>
         realTarget = realBase \<or> prefix (realBase @ sep) realTarget"
  using assms by (simp add: isPathWithinBase_def)

lemma isPathWithinBase_unresolved:
  assumes "realpathSync fs baseDir = None \<or> realpathSync fs targetPath = None"
  shows "isPathWithinBase fs targetPath baseDir \<longleftrightarrow>
         prefix (path_resolve (cwd fs) baseDir @ sep) (path_resolve (cwd fs) targetPath)"
  using assms by (auto simp: isPathWithinBase_def isPathWithinBase_fallback_def split: option.splits)

lemma sibling_not_within:
  "r @ ''-sibling/x'' \<noteq> r \<and> \<not> prefix (r @ sep) (r @ ''-sibling/x'')"
  by (simp add: sep_def)

text \<open>
  Claim C1. The check is to hold exactly when the resolved candidate equals the resolved
  root or starts with the root followed by a separator, on the branch that resolves
  symbolic links and on the fallback branch alike. On the fallback branch the equality
  is missing: when \<open>realpathSync\<close> throws (here: nothing exists any more), the root
  itself, whose lexically resolved form equals that of the root, is rejected.
\<close>

theorem isPathWithinBase_fallback_rejects_root:
  "realpathSync nothingThere ''/skills'' = None \<and>
   path_resolve (cwd nothingThere) ''/skills'' = ''/skills'' \<and>
   isPathWithinBase nothingThere ''/skills'' ''/skills'' = False"
  by (simp add: nothingThere_def isPathWithinBase_def isPathWithinBase_fallback_def path_resolve_def
      isAbsolute_def normalizeString_def sep_def)

section \<open>Properties of loading a document\<close>

text \<open>
  Claim C9. A document path that contains two dots in a row, anywhere, makes
  \<open>loadDocument\<close> throw the path traversal error before any call of the \<open>fs\<close> module.
\<close>

theorem loadDocument_rejects_dotdot:
  assumes "str_includes ''..'' documentPath"
  shows "loadDocument fs skill documentPath skillsDir = (Inl (Error ''Path traversal not allowed''), [])"
  using assms by (simp add: loadDocument_def)

theorem loadDocument_rejects_dotdot_witness:
  "str_includes ''..'' ''a..b.md'' \<and>
   loadDocument nothingThere alphaSkill ''a..b.md'' ''/skills'' = (Inl (Error ''Path traversal not allowed''), [])"
proof -
  have h: "str_includes ''..'' ''a..b.md''" by simp
  show ?thesis using h loadDocument_rejects_dotdot [OF h, of nothingThere alphaSkill "''/skills''"] by simp
qed

section \<open>Properties of the scan\<close>

text \<open>
  Claim C10. When the resolved skills directory does not exist, \<open>discoverSkills\<close> returns
  the empty catalog, having written one diagnostic, and throws nothing.
\<close>

theorem discoverSkills_missing_root:
  assumes "\<not> existsSync fs (path_resolve (cwd fs) skillsDir)"
  shows "discoverSkills parseYaml fs skillsDir = Inr ([], [DirectoryNotFound (path_resolve (cwd fs) skillsDir)])"
  using assms by (simp add: discoverSkills_def)

theorem discoverSkills_missing_root_witness:
  "\<not> existsSync nothingThere (path_resolve (cwd nothingThere) ''/skills'') \<and>
   discoverSkills (\<lambda>t. None) nothingThere ''/skills'' = Inr ([], [DirectoryNotFound ''/skills''])"
proof -
  have h: "\<not> existsSync nothingThere (path_resolve (cwd nothingThere) ''/skills'')"
    by (simp add: nothingThere_def)
  have r: "path_resolve (cwd nothingThere) ''/skills'' = ''/skills''"
    by (simp add: nothingThere_def path_resolve_def isAbsolute_def normalizeString_def)
  show ?thesis using h discoverSkills_missing_root [OF h, of "\<lambda>t. None"] r by simp
qed

end
